theory Spec2Isabelle
  imports Complex_Main "HOL-Library.Word" "HOL-Library.AList"
begin

text \<open>
  A shallow embedding of the upload, validate, encode and submit pipeline of
  InterviewCoach: the file validator of the \<open>VideoUploader\<close> component, the
  encoder and the remote analysis client of \<open>services/geminiService.ts\<close>, and the
  state transitions of the \<open>App\<close> component.

  JavaScript strings are written as \<open>string\<close>. A character outside ASCII stands
  as the bytes of its code units written in the UTF-8 scheme, so that every operation
  the code applies to strings (\<open>startsWith\<close> and \<open>split\<close> on ASCII text,
  concatenation, the emptiness test of \<open>||\<close> and \<open>!\<close>) reads the same on both.
\<close>

section \<open>Values of the platform\<close>

text \<open>
  What the code throws, or what a promise it awaits rejects with: an \<open>Error\<close> with
  its message, the \<open>SyntaxError\<close> of \<open>JSON.parse\<close>, a \<open>TypeError\<close> (a failed
  fetch), and the \<open>ProgressEvent\<close> a \<open>FileReader\<close> hands to \<open>onerror\<close>, which
  has no message.
\<close>

datatype thrown =
    Error string
  | SyntaxError string
  | TypeError string
  | ProgressEvent

fun message :: "thrown \<Rightarrow> string option" where
  "message (Error m) = Some m"
| "message (SyntaxError m) = Some m"
| "message (TypeError m) = Some m"
| "message ProgressEvent = None"

text \<open>
  The values \<open>JSON.parse\<close> returns. A number is kept as the exact value of its
  literal (JavaScript rounds it to a binary64 float, which changes no integer of
  magnitude below \<open>2 ^ 53\<close>). An object is the list of its members in the order of
  their first occurrence; a repeated key keeps its place and takes the later value.
\<close>

datatype json =
    JNull
  | JBool bool
  | JNumber rat
  | JString string
  | JArray "json list"
  | JObject "(string \<times> json) list"

text \<open>Property access \<open>v.k\<close> on a parsed value: \<open>None\<close> is \<open>undefined\<close>.\<close>

fun field :: "json \<Rightarrow> string \<Rightarrow> json option" where
  "field (JObject ms) k = map_of ms k"
| "field _ k = None"

text \<open>The truthiness of a string that may be \<open>undefined\<close>, and \<open>s || d\<close>.\<close>

definition truthy :: "string option \<Rightarrow> bool" where
  "truthy v = (case v of None \<Rightarrow> False | Some s \<Rightarrow> s \<noteq> [])"

definition or_else :: "string \<Rightarrow> string \<Rightarrow> string" where
  "or_else s d = (if s \<noteq> [] then s else d)"

section \<open>VideoUploader: the file validator\<close>

text \<open>
  A browser \<open>File\<close> as the component reads it: its display name, its MIME type
  (\<open>file.type\<close>), its declared size in bytes (\<open>file.size\<close>) and, for the
  encoder, the bytes a read delivers (\<open>None\<close> when the read fails).
\<close>

record File =
  file_name :: string
  file_type :: string
  file_size :: nat
  file_bytes :: "8 word list option"

text \<open>
  The component state of \<open>VideoUploader\<close>: the two \<open>useState\<close> slots
  \<open>error\<close> and \<open>dragActive\<close>.
\<close>

record uploader =
  error :: "string option"
  dragActive :: bool

text \<open>\<open>s.startsWith(p)\<close> of JavaScript.\<close>

definition startsWith :: "string \<Rightarrow> string \<Rightarrow> bool" where
  "startsWith s p = (take (length p) s = p)"

text \<open>
  The decimal rendering of a natural number, as a template literal interpolates it
  (\<open>${MAX_SIZE_MB}\<close>).
\<close>

definition digit_char :: "nat \<Rightarrow> char" where
  "digit_char d = char_of (48 + d)"

function String_of_nat :: "nat \<Rightarrow> string" where
  "String_of_nat n =
     (if n < 10 then [digit_char n]
      else String_of_nat (n div 10) @ [digit_char (n mod 10)])"
  by pat_completeness auto
termination
  by (relation "measure (\<lambda>n. n)") auto

declare String_of_nat.simps [simp del]

definition MAX_SIZE_MB :: nat where
  "MAX_SIZE_MB = 50"

text \<open>
  \<open>validateFile\<close> first clears the error slot (\<open>setError(null)\<close>), then applies
  the type rule and the size rule in this order; a rejection stores its reason in the
  error slot and returns \<open>false\<close>. The state is passed explicitly: the function
  returns the verdict and the component state after its \<open>setError\<close> calls.
\<close>

definition validateFile :: "File \<Rightarrow> uploader \<Rightarrow> bool \<times> uploader" where
  "validateFile f s =
     (let s1 = s\<lparr>error := None\<rparr> in
      if \<not> startsWith (file_type f) ''video/'' then
        (False, s1\<lparr>error := Some ''Please upload a valid video file (MP4, WebM, MOV).''\<rparr>)
      else if file_size f > MAX_SIZE_MB * 1024 * 1024 then
        (False, s1\<lparr>error := Some (''File size exceeds the '' @ String_of_nat MAX_SIZE_MB
                                    @ ''MB limit for this demo.'')\<rparr>)
      else (True, s1))"

section \<open>geminiService: the binary encoder\<close>

text \<open>
  \<open>FileReader.readAsDataURL\<close> is the browser's: it delivers the text
  \<open>data:<type>;base64,<payload>\<close>, the payload being the base64 encoding (RFC 4648,
  with padding) of the file's bytes, and \<open>application/octet-stream\<close> standing for an
  empty type. A failed read delivers no text (\<open>None\<close>) and fires \<open>onerror\<close>.
\<close>

definition b64_alphabet :: string where
  "b64_alphabet = ''ABCDEFGHIJKLMNOPQRSTUVWXYZabcdefghijklmnopqrstuvwxyz0123456789+/''"

definition sextet :: "nat \<Rightarrow> char" where
  "sextet n = b64_alphabet ! n"

fun base64_encode :: "8 word list \<Rightarrow> string" where
  "base64_encode [] = []"
| "base64_encode [a] =
     (let x = unat a
      in [sextet (x div 4), sextet (x mod 4 * 16), CHR ''='', CHR ''=''])"
| "base64_encode [a, b] =
     (let x = unat a; y = unat b
      in [sextet (x div 4), sextet (x mod 4 * 16 + y div 16), sextet (y mod 16 * 4),
          CHR ''=''])"
| "base64_encode (a # b # c # bs) =
     (let x = unat a; y = unat b; z = unat c
      in [sextet (x div 4), sextet (x mod 4 * 16 + y div 16),
          sextet (y mod 16 * 4 + z div 64), sextet (z mod 64)] @ base64_encode bs)"

text \<open>
  The matching decoder, which a consumer of the payload applies: four characters give
  three bytes, and \<open>=\<close> pads the last group.
\<close>

definition unsextet :: "char \<Rightarrow> nat option" where
  "unsextet c = map_of (zip b64_alphabet [0..<64]) c"

fun base64_decode :: "string \<Rightarrow> 8 word list option" where
  "base64_decode [] = Some []"
| "base64_decode (c1 # c2 # c3 # c4 # cs) =
     (case (unsextet c1, unsextet c2) of
        (Some p, Some q) \<Rightarrow>
          if c3 = CHR ''='' \<and> c4 = CHR ''='' \<and> cs = [] then
            Some [of_nat (p * 4 + q div 16)]
          else
            (case unsextet c3 of
               None \<Rightarrow> None
             | Some r \<Rightarrow>
                 if c4 = CHR ''='' \<and> cs = [] then
                   Some [of_nat (p * 4 + q div 16), of_nat (q mod 16 * 16 + r div 4)]
                 else
                   (case (unsextet c4, base64_decode cs) of
                      (Some s, Some bs) \<Rightarrow>
                        Some (of_nat (p * 4 + q div 16) # of_nat (q mod 16 * 16 + r div 4)
                              # of_nat (r mod 4 * 64 + s) # bs)
                    | _ \<Rightarrow> None))
      | _ \<Rightarrow> None)"
| "base64_decode _ = None"

definition readAsDataURL :: "File \<Rightarrow> string option" where
  "readAsDataURL f =
     (case file_bytes f of
        None \<Rightarrow> None
      | Some bs \<Rightarrow>
          Some (''data:''
                @ (if file_type f = [] then ''application/octet-stream'' else file_type f)
                @ '';base64,'' @ base64_encode bs))"

text \<open>
  \<open>s.split(sep)\<close> for a one-character separator: the pieces between the occurrences
  of the separator, empty pieces included. \<open>xs[i]\<close> is \<open>undefined\<close> (\<open>None\<close>) out
  of range.
\<close>

fun split_from :: "char \<Rightarrow> string \<Rightarrow> string \<Rightarrow> string list" where
  "split_from sep piece [] = [piece]"
| "split_from sep piece (c # cs) =
     (if c = sep then piece # split_from sep [] cs
      else split_from sep (piece @ [c]) cs)"

definition split :: "string \<Rightarrow> char \<Rightarrow> string list" where
  "split s sep = split_from sep [] s"

definition at_index :: "'a list \<Rightarrow> nat \<Rightarrow> 'a option" where
  "at_index xs i = (if i < length xs then Some (xs ! i) else None)"

text \<open>
  \<open>fileToGenerativePart\<close>: the promise resolves, in \<open>onloadend\<close>, with the file's
  type and the second piece of the data URL split at its commas; it rejects with the
  reader's event when the read fails (\<open>onerror\<close> fires before \<open>onloadend\<close>).
\<close>

record inlineData =
  mimeType :: string
  data :: "string option"

definition fileToGenerativePart :: "File \<Rightarrow> thrown + inlineData" where
  "fileToGenerativePart f =
     (case readAsDataURL f of
        None \<Rightarrow> Inl ProgressEvent
      | Some base64String \<Rightarrow>
          (let base64Data = at_index (split base64String (CHR '','')) 1
           in Inr \<lparr>mimeType = file_type f, data = base64Data\<rparr>))"

section \<open>JSON.parse\<close>

text \<open>
  \<open>JSON.parse\<close> is the platform's. It is written here as a tokenizer followed by a
  parser with an explicit stack of open arrays and objects, for the JSON grammar of
  ECMA-404: the four whitespace characters, the literals \<open>true\<close>, \<open>false\<close> and
  \<open>null\<close>, numbers with an optional fraction and exponent and no leading zero,
  strings with the escapes of the grammar (a quote, a backslash, a slash, \<open>b\<close>,
  \<open>f\<close>, \<open>n\<close>, \<open>r\<close>, \<open>t\<close>, and \<open>u\<close> with four hexadecimal digits) and no
  raw control character, arrays and objects with no trailing comma. A text outside
  the grammar makes it throw a \<open>SyntaxError\<close>.
\<close>

datatype token =
    LBrace | RBrace | LBracket | RBracket | Colon | Comma
  | TString string | TNumber rat | TTrue | TFalse | TNull

definition is_ws :: "char \<Rightarrow> bool" where
  "is_ws c = (c \<in> set [CHR '' '', CHR 0x09, CHR 0x0A, CHR 0x0D])"

definition is_digit :: "char \<Rightarrow> bool" where
  "is_digit c = (c \<in> set ''0123456789'')"

definition digit_val :: "char \<Rightarrow> nat" where
  "digit_val c = of_char c - 48"

definition digits_val :: "string \<Rightarrow> nat" where
  "digits_val ds = foldl (\<lambda>n c. 10 * n + digit_val c) 0 ds"

definition hex_val :: "char \<Rightarrow> nat option" where
  "hex_val c =
     (if is_digit c then Some (of_char c - 48)
      else if c \<in> set ''abcdef'' then Some (of_char c - 87)
      else if c \<in> set ''ABCDEF'' then Some (of_char c - 55)
      else None)"

definition code_unit :: "nat \<Rightarrow> string" where
  "code_unit n =
     (if n < 128 then [char_of n]
      else if n < 2048 then [char_of (192 + n div 64), char_of (128 + n mod 64)]
      else [char_of (224 + n div 4096), char_of (128 + (n div 64) mod 64),
            char_of (128 + n mod 64)])"

definition escape_char :: "char \<Rightarrow> char option" where
  "escape_char e =
     (if e = CHR 0x22 then Some (CHR 0x22)
      else if e = CHR 0x5C then Some (CHR 0x5C)
      else if e = CHR ''/'' then Some (CHR ''/'')
      else if e = CHR ''b'' then Some (CHR 0x08)
      else if e = CHR ''f'' then Some (CHR 0x0C)
      else if e = CHR ''n'' then Some (CHR 0x0A)
      else if e = CHR ''r'' then Some (CHR 0x0D)
      else if e = CHR ''t'' then Some (CHR 0x09)
      else None)"

text \<open>
  The body of a string literal, after its opening quote: the decoded text and the rest
  of the input after the closing quote.
\<close>

definition prepend :: "string \<Rightarrow> (string \<times> string) option \<Rightarrow> (string \<times> string) option" where
  "prepend x r = (case r of None \<Rightarrow> None | Some (s, rest) \<Rightarrow> Some (x @ s, rest))"

fun lex_string :: "string \<Rightarrow> (string \<times> string) option" where
  "lex_string [] = None"
| "lex_string (c # cs) =
     (if c = CHR 0x22 then Some ([], cs)
      else if c = CHR 0x5C then
        (case cs of
           [] \<Rightarrow> None
         | e # cs1 \<Rightarrow>
             if e = CHR ''u'' then
               (case cs1 of
                  h1 # h2 # h3 # h4 # cs2 \<Rightarrow>
                    (case (hex_val h1, hex_val h2, hex_val h3, hex_val h4) of
                       (Some a, Some b, Some c, Some d) \<Rightarrow>
                         prepend (code_unit (4096 * a + 256 * b + 16 * c + d)) (lex_string cs2)
                     | _ \<Rightarrow> None)
                | _ \<Rightarrow> None)
             else
               (case escape_char e of
                  None \<Rightarrow> None
                | Some x \<Rightarrow> prepend [x] (lex_string cs1)))
      else if (of_char c :: nat) < 32 then None
      else prepend [c] (lex_string cs))"

text \<open>
  A number literal: an optional minus sign, the integer digits (a single \<open>0\<close>, or
  digits that do not begin with \<open>0\<close>), an optional fraction, an optional exponent.
\<close>

definition is_number_char :: "char \<Rightarrow> bool" where
  "is_number_char c = (is_digit c \<or> c \<in> set ''+-.eE'')"

definition int_digits_ok :: "string \<Rightarrow> bool" where
  "int_digits_ok ds = (ds \<noteq> [] \<and> (length ds = 1 \<or> hd ds \<noteq> CHR ''0''))"

definition parse_exponent :: "string \<Rightarrow> int option" where
  "parse_exponent r =
     (case r of
        [] \<Rightarrow> Some 0
      | e # r1 \<Rightarrow>
          if e = CHR ''e'' \<or> e = CHR ''E'' then
            (let neg = (r1 \<noteq> [] \<and> hd r1 = CHR ''-'');
                 r2 = (if r1 \<noteq> [] \<and> (hd r1 = CHR ''-'' \<or> hd r1 = CHR ''+'') then tl r1 else r1)
             in if r2 \<noteq> [] \<and> list_all is_digit r2
                then Some (if neg then - int (digits_val r2) else int (digits_val r2))
                else None)
          else None)"

definition parse_fraction :: "string \<Rightarrow> (rat \<times> string) option" where
  "parse_fraction r =
     (case r of
        [] \<Rightarrow> Some (0, [])
      | d # r1 \<Rightarrow>
          if d = CHR ''.'' then
            (let fs = takeWhile is_digit r1 in
             if fs = [] then None
             else Some (of_nat (digits_val fs) / 10 ^ length fs, dropWhile is_digit r1))
          else Some (0, r))"

definition scale10 :: "rat \<Rightarrow> int \<Rightarrow> rat" where
  "scale10 q e = (if 0 \<le> e then q * 10 ^ nat e else q / 10 ^ nat (- e))"

definition parse_number :: "string \<Rightarrow> rat option" where
  "parse_number lexeme =
     (let neg = (lexeme \<noteq> [] \<and> hd lexeme = CHR ''-'');
          r = (if neg then tl lexeme else lexeme);
          ds = takeWhile is_digit r
      in if \<not> int_digits_ok ds then None
         else case parse_fraction (dropWhile is_digit r) of
                None \<Rightarrow> None
              | Some (fr, r1) \<Rightarrow>
                  (case parse_exponent r1 of
                     None \<Rightarrow> None
                   | Some e \<Rightarrow>
                       (let q = scale10 (of_nat (digits_val ds) + fr) e
                        in Some (if neg then - q else q))))"

text \<open>
  The tokenizer. A number token is read from the longest run of number characters; the
  characters that may follow a number in a valid text (whitespace, a comma, a closing
  bracket) are none of them.
\<close>

definition emit :: "token \<Rightarrow> token list option \<Rightarrow> token list option" where
  "emit t r = (case r of None \<Rightarrow> None | Some ts \<Rightarrow> Some (t # ts))"

lemma lex_string_shorter: "lex_string cs = Some (s, rest) \<Longrightarrow> length rest < length cs"
proof (induction "length cs" arbitrary: cs s rest rule: less_induct)
  case less
  show ?case
    using less.prems
    by (cases cs)
      (auto simp: prepend_def split: if_splits list.splits option.splits prod.splits
            dest!: less.hyps [rotated])
qed

function tokenize :: "string \<Rightarrow> token list option" where
  "tokenize [] = Some []"
| "tokenize (c # cs) =
     (if is_ws c then tokenize cs
      else if c = CHR ''{'' then emit LBrace (tokenize cs)
      else if c = CHR ''}'' then emit RBrace (tokenize cs)
      else if c = CHR ''['' then emit LBracket (tokenize cs)
      else if c = CHR '']'' then emit RBracket (tokenize cs)
      else if c = CHR '':'' then emit Colon (tokenize cs)
      else if c = CHR '','' then emit Comma (tokenize cs)
      else if c = CHR 0x22 then
        (case lex_string cs of
           None \<Rightarrow> None
         | Some (s, rest) \<Rightarrow> emit (TString s) (tokenize rest))
      else if c = CHR ''-'' \<or> is_digit c then
        (case parse_number (c # takeWhile is_number_char cs) of
           None \<Rightarrow> None
         | Some q \<Rightarrow> emit (TNumber q) (tokenize (dropWhile is_number_char cs)))
      else if startsWith (c # cs) ''true'' then emit TTrue (tokenize (drop 3 cs))
      else if startsWith (c # cs) ''false'' then emit TFalse (tokenize (drop 4 cs))
      else if startsWith (c # cs) ''null'' then emit TNull (tokenize (drop 3 cs))
      else None)"
  by pat_completeness auto
termination
proof (relation "measure length")
  show "wf (measure length)" by simp
qed (auto dest: lex_string_shorter simp: less_Suc_eq_le length_dropWhile_le)

declare tokenize.simps [simp del]

text \<open>
  The parser reads one token at a time. The stack holds the arrays and objects still
  open, and above an object the key whose value is being read; the mode says what may
  come next.
\<close>

datatype frame = FArr "json list" | FObj "(string \<times> json) list" | FKey string

datatype mode = MValue | MFirstElem | MFirstKey | MKey | MColon | MAfter | MDone json

fun scalar :: "token \<Rightarrow> json option" where
  "scalar (TString s) = Some (JString s)"
| "scalar (TNumber q) = Some (JNumber q)"
| "scalar TTrue = Some (JBool True)"
| "scalar TFalse = Some (JBool False)"
| "scalar TNull = Some JNull"
| "scalar _ = None"

fun complete :: "json \<Rightarrow> frame list \<Rightarrow> (mode \<times> frame list) option" where
  "complete v [] = Some (MDone v, [])"
| "complete v (FArr es # st) = Some (MAfter, FArr (es @ [v]) # st)"
| "complete v (FKey k # FObj ms # st) = Some (MAfter, FObj (AList.update k v ms) # st)"
| "complete v _ = None"

fun open_value :: "frame list \<Rightarrow> token \<Rightarrow> (mode \<times> frame list) option" where
  "open_value st LBracket = Some (MFirstElem, FArr [] # st)"
| "open_value st LBrace = Some (MFirstKey, FObj [] # st)"
| "open_value st t = (case scalar t of None \<Rightarrow> None | Some v \<Rightarrow> complete v st)"

fun read_key :: "frame list \<Rightarrow> token \<Rightarrow> (mode \<times> frame list) option" where
  "read_key st (TString k) = Some (MColon, FKey k # st)"
| "read_key st _ = None"

fun close_array :: "frame list \<Rightarrow> (mode \<times> frame list) option" where
  "close_array (FArr es # st) = complete (JArray es) st"
| "close_array _ = None"

fun close_object :: "frame list \<Rightarrow> (mode \<times> frame list) option" where
  "close_object (FObj ms # st) = complete (JObject ms) st"
| "close_object _ = None"

fun after_value :: "frame list \<Rightarrow> token \<Rightarrow> (mode \<times> frame list) option" where
  "after_value (FArr es # st) Comma = Some (MValue, FArr es # st)"
| "after_value (FObj ms # st) Comma = Some (MKey, FObj ms # st)"
| "after_value st RBracket = close_array st"
| "after_value st RBrace = close_object st"
| "after_value _ _ = None"

fun step :: "mode \<Rightarrow> frame list \<Rightarrow> token \<Rightarrow> (mode \<times> frame list) option" where
  "step MValue st t = open_value st t"
| "step MFirstElem st t = (if t = RBracket then close_array st else open_value st t)"
| "step MFirstKey st t = (if t = RBrace then close_object st else read_key st t)"
| "step MKey st t = read_key st t"
| "step MColon st t = (if t = Colon then Some (MValue, st) else None)"
| "step MAfter st t = after_value st t"
| "step (MDone v) st t = None"

fun run :: "mode \<Rightarrow> frame list \<Rightarrow> token list \<Rightarrow> json option" where
  "run (MDone v) [] [] = Some v"
| "run m st [] = None"
| "run m st (t # ts) = (case step m st t of None \<Rightarrow> None | Some (m1, st1) \<Rightarrow> run m1 st1 ts)"

definition JSON_parse :: "string \<Rightarrow> thrown + json" where
  "JSON_parse t =
     (case tokenize t of
        None \<Rightarrow> Inl (SyntaxError ''Unexpected token'')
      | Some ts \<Rightarrow>
          (case run MValue [] ts of
             None \<Rightarrow> Inl (SyntaxError ''Unexpected token'')
           | Some v \<Rightarrow> Inr v))"

section \<open>geminiService: the request and the remote analysis client\<close>

text \<open>The response schema \<open>analysisSchema\<close>, a constant of the module.\<close>

datatype SchemaType = OBJECT | ARRAY | STRING | INTEGER

datatype Schema =
  Schema (schema_type: SchemaType) (description: "string option")
         (properties: "(string \<times> Schema) list") (items: "Schema option")
         (enum_values: "string list") (required: "string list")

definition analysisSchema :: Schema where
  "analysisSchema =
     Schema OBJECT None
       [(''overallScore'',
           Schema INTEGER (Some ''A score from 0 to 100 based on overall performance.'')
             [] None [] []),
        (''summary'',
           Schema STRING
             (Some (''A brief executive summary of the candidate'' @ [CHR 0x27]
                    @ ''s performance.''))
             [] None [] []),
        (''strengths'',
           Schema ARRAY (Some ''List of 3-5 key strengths observed.'')
             [] (Some (Schema STRING None [] None [] [])) [] []),
        (''weaknesses'',
           Schema ARRAY (Some ''List of 3-5 key areas for improvement.'')
             [] (Some (Schema STRING None [] None [] [])) [] []),
        (''actionableTips'',
           Schema ARRAY (Some ''Specific, actionable advice for the next interview.'')
             [] (Some (Schema STRING None [] None [] [])) [] []),
        (''categories'',
           Schema ARRAY None []
             (Some (Schema OBJECT None
                [(''name'',
                    Schema STRING
                      (Some ''Category name (e.g., Verbal Communication, Body Language, Content Relevance, Visual Aids/Screen Share)'')
                      [] None [] []),
                 (''score'',
                    Schema INTEGER (Some ''Score 0-100 for this category'') [] None [] []),
                 (''feedback'',
                    Schema STRING (Some ''Specific feedback for this category'')
                      [] None [] []),
                 (''status'',
                    Schema STRING None [] None
                      [''excellent'', ''good'', ''needs_improvement''] [])]
                None [] [''name'', ''score'', ''feedback'', ''status'']))
             [] [])]
       None []
       [''overallScore'', ''summary'', ''strengths'', ''weaknesses'', ''actionableTips'',
        ''categories'']"

text \<open>
  The request \<open>ai.models.generateContent\<close> is called with, the response it resolves
  with (\<open>response.text\<close> may be \<open>undefined\<close>), the client built from the key, and
  the environment the key is read from (\<open>process.env.API_KEY\<close>).
\<close>

datatype part = InlineData inlineData | Text string

record config =
  responseMimeType :: string
  responseSchema :: Schema
  temperature :: rat

record request =
  model :: string
  parts :: "part list"
  config :: config

record response =
  response_text :: "string option"

record GoogleGenAI =
  apiKey :: string

record env =
  API_KEY :: "string option"

text \<open>
  The effects of the service on the world: the requests sent to the remote endpoint,
  in order, and the lines written with \<open>console.error\<close>.
\<close>

datatype console_arg = Str string | Thrown thrown

record world =
  network :: "request list"
  console :: "console_arg list list"

text \<open>The instruction: the template literal of \<open>analyzeInterview\<close>.\<close>

definition prompt_for :: "string \<Rightarrow> string" where
  \<open>prompt_for jobDescription =
     ''\<newline>    You are an expert Interview Coach and Technical Recruiter.\<newline>''
     @ ''    Review the uploaded video which contains an interview practice session.\<newline>''
     @ ''    The video may include audio, webcam footage, and screen sharing.\<newline>''
     @ ''    \<newline>''
     @ ''    The user is applying for a role described as:\<newline>''
     @ ''    "'' @ or_else jobDescription ''General Software Engineering Role'' @ ''"\<newline>''
     @ ''\<newline>''
     @ ''    Please analyze the video for:\<newline>''
     @ ''    1. Verbal Communication: Clarity, pace, tone, filler words.\<newline>''
     @ ''    2. Non-Verbal Communication: Eye contact, body language, confidence (if camera is on).\<newline>''
     @ ''    3. Content Quality: Relevance to the job description, technical depth, structure of answers.\<newline>''
     @ ''    4. Screen Share / Visuals: If they are sharing their screen, assess the clarity of their walkthrough and code/presentation.\<newline>''
     @ ''\<newline>''
     @ ''    Provide a structured JSON response evaluating these areas.\<newline>''
     @ ''  ''\<close>

definition analysis_request :: "inlineData \<Rightarrow> string \<Rightarrow> request" where
  "analysis_request base64Data prompt =
     \<lparr>model = ''gemini-2.5-flash'',
      parts = [InlineData base64Data, Text prompt],
      config = \<lparr>responseMimeType = ''application/json'',
                 responseSchema = analysisSchema,
                 temperature = 4 / 10\<rparr>\<rparr>"

text \<open>
  The body of the \<open>try\<close> block once the call has settled: a rejected call throws
  its reason, a response with no text (or an empty one) throws, and a text is handed to
  \<open>JSON.parse\<close>, whose result is returned as it is (\<open>as InterviewAnalysis\<close> is a
  cast of the type checker and does nothing at run time).
\<close>

definition read_response :: "thrown + response \<Rightarrow> thrown + json" where
  "read_response outcome =
     (case outcome of
        Inl e \<Rightarrow> Inl e
      | Inr response \<Rightarrow>
          (case response_text response of
             None \<Rightarrow> Inl (Error ''No response text received from Gemini.'')
           | Some t \<Rightarrow>
               if t \<noteq> [] then JSON_parse t
               else Inl (Error ''No response text received from Gemini.'')))"

text \<open>
  \<open>analyzeInterview\<close>. The remote endpoint is the parameter \<open>generateContent\<close>:
  what it answers to a request is not the program's to decide. The function returns
  what the promise settles with (\<open>Inl\<close>: it rejects with that value) and the world
  after its effects.
\<close>

definition analyzeInterview ::
  "env \<Rightarrow> (GoogleGenAI \<Rightarrow> request \<Rightarrow> thrown + response) \<Rightarrow> File \<Rightarrow> string \<Rightarrow> world
     \<Rightarrow> (thrown + json) \<times> world" where
  "analyzeInterview e generateContent videoFile jobDescription w =
     (case API_KEY e of
        None \<Rightarrow> (Inl (Error ''API Key is missing. Please set it in the environment.''), w)
      | Some key \<Rightarrow>
          if key = [] then
            (Inl (Error ''API Key is missing. Please set it in the environment.''), w)
          else
            (let ai = \<lparr>apiKey = key\<rparr> in
             case fileToGenerativePart videoFile of
               Inl rejected \<Rightarrow> (Inl rejected, w)
             | Inr base64Data \<Rightarrow>
                 (let prompt = prompt_for jobDescription;
                      req = analysis_request base64Data prompt;
                      w1 = w\<lparr>network := network w @ [req]\<rparr>
                  in case read_response (generateContent ai req) of
                       Inr analysis \<Rightarrow> (Inr analysis, w1)
                     | Inl err \<Rightarrow>
                         (Inl (Error ''Failed to analyze the video. The file might be too large or the format unsupported.''),
                          w1\<lparr>console := console w1
                                 @ [[Str ''Gemini Analysis Error:'', Thrown err]]\<rparr>))))"

section \<open>App: the component state and its handlers\<close>

text \<open>
  The five \<open>useState\<close> slots of \<open>App\<close>; \<open>null\<close> in the \<open>analysisResult\<close>
  slot is \<open>JNull\<close>.
\<close>

datatype UploadStatus = IDLE | UPLOADING | READY | ERROR

record app =
  videoFile :: "File option"
  jobDescription :: string
  status :: UploadStatus
  analysisResult :: json
  errorMessage :: "string option"

definition initial_app :: app where
  "initial_app =
     \<lparr>videoFile = None, jobDescription = [], status = IDLE, analysisResult = JNull,
      errorMessage = None\<rparr>"

text \<open>
  \<open>handleAnalyze\<close> runs in two parts, before and after its \<open>await\<close>: the first
  returns at once when no file is selected, and otherwise marks the upload and clears
  the error message; the second stores what \<open>analyzeInterview\<close> settled with. The
  state updates of one part are applied together. (\<open>console.error\<close> in the
  \<open>catch\<close> block writes to the console, not to the component state.)
\<close>

definition setVideoFile :: "File option \<Rightarrow> app \<Rightarrow> app" where
  "setVideoFile f s = s\<lparr>videoFile := f\<rparr>"

definition setJobDescription :: "string \<Rightarrow> app \<Rightarrow> app" where
  "setJobDescription d s = s\<lparr>jobDescription := d\<rparr>"

definition handleAnalyze_submit :: "app \<Rightarrow> app" where
  "handleAnalyze_submit s =
     (case videoFile s of
        None \<Rightarrow> s
      | Some f \<Rightarrow> s\<lparr>status := UPLOADING, errorMessage := None\<rparr>)"

definition handleAnalyze_settled :: "thrown + json \<Rightarrow> app \<Rightarrow> app" where
  "handleAnalyze_settled outcome s =
     (case outcome of
        Inr result \<Rightarrow> s\<lparr>analysisResult := result, status := READY\<rparr>
      | Inl err \<Rightarrow>
          s\<lparr>errorMessage :=
               Some (case message err of
                       None \<Rightarrow> ''Something went wrong during analysis.''
                     | Some m \<Rightarrow> or_else m ''Something went wrong during analysis.''),
             status := ERROR\<rparr>)"

definition handleReset :: "app \<Rightarrow> app" where
  "handleReset s =
     s\<lparr>videoFile := None, jobDescription := [], analysisResult := JNull, status := IDLE,
       errorMessage := None\<rparr>"

text \<open>
  The states the component can be in: from the initial state, by selecting or clearing
  a file, editing the job description, submitting, the settling of a submission (with
  any outcome), and resetting, in any order.
\<close>

inductive reachable :: "app \<Rightarrow> bool" where
  start: "reachable initial_app"
| select: "reachable s \<Longrightarrow> reachable (setVideoFile f s)"
| edit: "reachable s \<Longrightarrow> reachable (setJobDescription d s)"
| submit: "reachable s \<Longrightarrow> reachable (handleAnalyze_submit s)"
| settled: "reachable s \<Longrightarrow> reachable (handleAnalyze_settled outcome s)"
| reset: "reachable s \<Longrightarrow> reachable (handleReset s)"

section \<open>The report invariants of the specification\<close>

text \<open>
  The invariants the specification states for a report, written from its words (the
  code has no counterpart): a score is an integer from 0 to 100, a category's status
  is one of \<open>excellent\<close>, \<open>good\<close> and \<open>needs_improvement\<close>, and the list of
  categories is not empty.
\<close>

definition spec_score_in_range :: "json option \<Rightarrow> bool" where
  "spec_score_in_range v =
     (case v of
        Some (JNumber q) \<Rightarrow> of_int \<lfloor>q\<rfloor> = q \<and> 0 \<le> q \<and> q \<le> 100
      | _ \<Rightarrow> False)"

definition spec_status_listed :: "json option \<Rightarrow> bool" where
  "spec_status_listed v =
     (v \<in> set [Some (JString ''excellent''), Some (JString ''good''),
                Some (JString ''needs_improvement'')])"

definition spec_category_ok :: "json \<Rightarrow> bool" where
  "spec_category_ok c =
     (spec_score_in_range (field c ''score'') \<and> spec_status_listed (field c ''status''))"

definition spec_report_invariants :: "json \<Rightarrow> bool" where
  "spec_report_invariants r =
     (spec_score_in_range (field r ''overallScore'')
      \<and> (case field r ''categories'' of
            Some (JArray cs) \<Rightarrow> cs \<noteq> [] \<and> list_all spec_category_ok cs
          | _ \<Rightarrow> False))"

section \<open>Example inputs\<close>

text \<open>
  A small readable video file, an environment with a key, and the world before any
  effect.
\<close>

definition example_file :: File where
  "example_file =
     \<lparr>file_name = ''practice.mp4'', file_type = ''video/mp4'', file_size = 3,
      file_bytes = Some [0, 1, 2]\<rparr>"

definition example_env :: env where
  "example_env = \<lparr>API_KEY = Some ''secret''\<rparr>"

definition empty_world :: world where
  "empty_world = \<lparr>network = [], console = []\<rparr>"

text \<open>
  A video file whose type carries a codecs parameter with a comma, as a recorder
  names its output.
\<close>

definition comma_type_file :: File where
  "comma_type_file =
     \<lparr>file_name = ''take1.webm'', file_type = ''video/webm;codecs=vp8,opus'', file_size = 3,
      file_bytes = Some [0, 1, 2]\<rparr>"

text \<open>The response of the specification's example, and the report it denotes.\<close>

definition example_response_text :: string where
  \<open>example_response_text = ''{"overallScore":82,"summary":"Solid","strengths":["Clear speech"],"weaknesses":["Rambling"],"actionableTips":["Be concise"],"categories":[{"name":"Verbal Communication","score":80,"feedback":"Good pace","status":"good"}]}''\<close>

definition example_report :: json where
  "example_report =
     JObject
       [(''overallScore'', JNumber 82), (''summary'', JString ''Solid''),
        (''strengths'', JArray [JString ''Clear speech'']),
        (''weaknesses'', JArray [JString ''Rambling'']),
        (''actionableTips'', JArray [JString ''Be concise'']),
        (''categories'',
           JArray
             [JObject
                [(''name'', JString ''Verbal Communication''), (''score'', JNumber 80),
                 (''feedback'', JString ''Good pace''), (''status'', JString ''good'')]])]"

text \<open>
  Two responses that are valid JSON and break the invariants: one with an overall
  score of 150, a category score of \<open>-5\<close> and an unlisted status, one with no
  category.
\<close>

definition out_of_range_response_text :: string where
  \<open>out_of_range_response_text = ''{"overallScore":150,"summary":"Solid","strengths":[],"weaknesses":[],"actionableTips":[],"categories":[{"name":"Verbal Communication","score":-5,"feedback":"Good pace","status":"superb"}]}''\<close>

definition out_of_range_report :: json where
  "out_of_range_report =
     JObject
       [(''overallScore'', JNumber 150), (''summary'', JString ''Solid''),
        (''strengths'', JArray []), (''weaknesses'', JArray []),
        (''actionableTips'', JArray []),
        (''categories'',
           JArray
             [JObject
                [(''name'', JString ''Verbal Communication''), (''score'', JNumber (- 5)),
                 (''feedback'', JString ''Good pace''), (''status'', JString ''superb'')]])]"

definition no_categories_response_text :: string where
  \<open>no_categories_response_text = ''{"overallScore":82,"summary":"Solid","strengths":[],"weaknesses":[],"actionableTips":[],"categories":[]}''\<close>

definition no_categories_report :: json where
  "no_categories_report =
     JObject
       [(''overallScore'', JNumber 82), (''summary'', JString ''Solid''),
        (''strengths'', JArray []), (''weaknesses'', JArray []),
        (''actionableTips'', JArray []), (''categories'', JArray [])]"

section \<open>Properties of the file validator\<close>

lemma String_of_MAX_SIZE_MB: "String_of_nat MAX_SIZE_MB = ''50''"
  by code_simp

lemma validateFile_unfold:
  "validateFile f s =
     (if \<not> startsWith (file_type f) ''video/'' then
        (False, s\<lparr>error := Some ''Please upload a valid video file (MP4, WebM, MOV).''\<rparr>)
      else if file_size f > 52428800 then
        (False, s\<lparr>error := Some ''File size exceeds the 50MB limit for this demo.''\<rparr>)
      else (True, s\<lparr>error := None\<rparr>))"
  by (simp add: validateFile_def Let_def String_of_MAX_SIZE_MB) (simp add: MAX_SIZE_MB_def)

text \<open>
  C1, as stated, reads the type rule as "begins with \<open>video\<close>". The code tests the
  prefix \<open>video/\<close>: a file of type \<open>video\<close> begins with \<open>video\<close> and is below
  the ceiling, and is rejected with the type-mismatch reason all the same.
\<close>

theorem C1_prefix_video_counterexample:
  "startsWith (file_type \<lparr>file_name = ''clip'', file_type = ''video'', file_size = 0,
                           file_bytes = Some []\<rparr>) ''video''
   \<and> \<not> file_size \<lparr>file_name = ''clip'', file_type = ''video'', file_size = 0,
                     file_bytes = Some []\<rparr> > 50 * 1024 * 1024
   \<and> validateFile \<lparr>file_name = ''clip'', file_type = ''video'', file_size = 0,
                     file_bytes = Some []\<rparr> \<lparr>error = None, dragActive = False\<rparr>
       = (False, \<lparr>error = Some ''Please upload a valid video file (MP4, WebM, MOV).'',
                  dragActive = False\<rparr>)"
  by (simp add: validateFile_unfold) (simp add: startsWith_def)

text \<open>
  C1 (amended): the validator applies its rules in order. For every candidate file, if
  the MIME type does not begin with \<open>video/\<close> it rejects with the type-mismatch reason;
  otherwise, if the byte size exceeds \<open>50 * 1024 * 1024\<close> bytes it rejects with the
  size-limit reason; otherwise it accepts and leaves the error slot empty.
\<close>

theorem C1_validateFile_rules_in_order:
  "validateFile f s =
     (if \<not> startsWith (file_type f) ''video/'' then
        (False, s\<lparr>error := Some ''Please upload a valid video file (MP4, WebM, MOV).''\<rparr>)
      else if file_size f > 50 * 1024 * 1024 then
        (False, s\<lparr>error := Some ''File size exceeds the 50MB limit for this demo.''\<rparr>)
      else (True, s\<lparr>error := None\<rparr>))"
  by (simp add: validateFile_unfold)

text \<open>
  C2, as stated, promises the size-limit reason for every oversized file whatever its
  type. The type rule runs first: an oversized \<open>text/plain\<close> file is rejected with
  the type-mismatch reason, which is not the size-limit reason.
\<close>

theorem C2_oversized_text_counterexample:
  "file_size \<lparr>file_name = ''notes.txt'', file_type = ''text/plain'', file_size = 60000000,
               file_bytes = None\<rparr> > 50 * 1024 * 1024
   \<and> validateFile \<lparr>file_name = ''notes.txt'', file_type = ''text/plain'',
                     file_size = 60000000, file_bytes = None\<rparr>
                    \<lparr>error = None, dragActive = False\<rparr>
       = (False, \<lparr>error = Some ''Please upload a valid video file (MP4, WebM, MOV).'',
                  dragActive = False\<rparr>)
   \<and> ''Please upload a valid video file (MP4, WebM, MOV).''
       \<noteq> ''File size exceeds the 50MB limit for this demo.''"
  by (simp add: validateFile_unfold) (simp add: startsWith_def)

text \<open>
  C2 (amended): every file whose declared byte size exceeds the 50 MiB ceiling is
  rejected; the reason stored is the size-limit reason when the MIME type begins with
  \<open>video/\<close>, and the type-mismatch reason otherwise.
\<close>

theorem C2_oversized_rejected:
  assumes "file_size f > 50 * 1024 * 1024"
  shows "fst (validateFile f s) = False
         \<and> error (snd (validateFile f s)) =
             Some (if startsWith (file_type f) ''video/''
                   then ''File size exceeds the 50MB limit for this demo.''
                   else ''Please upload a valid video file (MP4, WebM, MOV).'')"
  using assms by (simp add: validateFile_unfold)

theorem C2_oversized_rejected_witness:
  "file_size \<lparr>file_name = ''big.mp4'', file_type = ''video/mp4'', file_size = 52428801,
               file_bytes = None\<rparr> > 50 * 1024 * 1024
   \<and> fst (validateFile \<lparr>file_name = ''big.mp4'', file_type = ''video/mp4'',
                          file_size = 52428801, file_bytes = None\<rparr>
                         \<lparr>error = None, dragActive = True\<rparr>) = False
   \<and> error (snd (validateFile \<lparr>file_name = ''big.mp4'', file_type = ''video/mp4'',
                                 file_size = 52428801, file_bytes = None\<rparr>
                                \<lparr>error = None, dragActive = True\<rparr>))
       = Some ''File size exceeds the 50MB limit for this demo.''"
  using C2_oversized_rejected
    [of "\<lparr>file_name = ''big.mp4'', file_type = ''video/mp4'', file_size = 52428801,
          file_bytes = None\<rparr>" "\<lparr>error = None, dragActive = True\<rparr>"]
  by (simp add: startsWith_def)

text \<open>
  C9, as stated, calls the validator a pure predicate that leaves the error-message slot
  alone. The code writes the slot itself: validating a \<open>text/plain\<close> file in a state
  with an empty slot ends in a state whose slot holds the reason.
\<close>

theorem C9_validateFile_writes_error_counterexample:
  "snd (validateFile \<lparr>file_name = ''notes.txt'', file_type = ''text/plain'', file_size = 10,
                       file_bytes = None\<rparr> \<lparr>error = None, dragActive = False\<rparr>)
     \<noteq> \<lparr>error = None, dragActive = False\<rparr>
   \<and> error (snd (validateFile \<lparr>file_name = ''notes.txt'', file_type = ''text/plain'',
                                 file_size = 10, file_bytes = None\<rparr>
                                \<lparr>error = None, dragActive = False\<rparr>))
       = Some ''Please upload a valid video file (MP4, WebM, MOV).''"
  by (simp add: validateFile_unfold) (simp add: startsWith_def)

text \<open>
  C9 (amended): the validator's verdict depends on the file alone, not on the component
  state, and its only effect on the component state is on the error-message slot, which
  it empties on acceptance and sets to the reason on rejection; every other slot is
  unchanged.
\<close>

theorem C9_validateFile_frame:
  "fst (validateFile f s) = fst (validateFile f s')
   \<and> dragActive (snd (validateFile f s)) = dragActive s
   \<and> snd (validateFile f s) = s\<lparr>error := error (snd (validateFile f s'))\<rparr>
   \<and> (error (snd (validateFile f s)) = None) = fst (validateFile f s)"
  by (simp add: validateFile_unfold)

section \<open>Properties of the binary encoder\<close>

text \<open>
  The decoder inverts the encoder on every byte list, and the encoder writes no comma.
\<close>

lemma b64_alphabet_length: "length b64_alphabet = 64"
  by (simp add: b64_alphabet_def)

lemma b64_alphabet_distinct: "distinct b64_alphabet"
  by (simp add: b64_alphabet_def)

lemma unsextet_sextet: "n < 64 \<Longrightarrow> unsextet (sextet n) = Some n"
proof -
  assume n: "n < 64"
  have d: "distinct (map fst (zip b64_alphabet [0..<64]))"
    by (simp add: b64_alphabet_length b64_alphabet_distinct)
  have "(b64_alphabet ! n, [0..<64] ! n) \<in> set (zip b64_alphabet [0..<64])"
    using n by (metis b64_alphabet_length in_set_zip length_upt diff_zero fst_conv snd_conv)
  then have "map_of (zip b64_alphabet [0..<64]) (b64_alphabet ! n) = Some ([0..<64] ! n)"
    using d by (rule map_of_is_SomeI [rotated])
  then show ?thesis
    using n by (simp add: unsextet_def sextet_def)
qed

lemma sextet_in_alphabet: "n < 64 \<Longrightarrow> sextet n \<in> set b64_alphabet"
  by (simp add: sextet_def b64_alphabet_length)

lemma sextet_not_pad: "n < 64 \<Longrightarrow> sextet n \<noteq> CHR ''=''"
proof -
  assume "n < 64"
  then have "sextet n \<in> set b64_alphabet" by (rule sextet_in_alphabet)
  moreover have "CHR ''='' \<notin> set b64_alphabet" by (simp add: b64_alphabet_def)
  ultimately show ?thesis by auto
qed

lemma sextet_not_comma: "n < 64 \<Longrightarrow> sextet n \<noteq> CHR '',''"
proof -
  assume "n < 64"
  then have "sextet n \<in> set b64_alphabet" by (rule sextet_in_alphabet)
  moreover have "CHR '','' \<notin> set b64_alphabet" by (simp add: b64_alphabet_def)
  ultimately show ?thesis by auto
qed

lemma unat_byte: "unat (a :: 8 word) < 256"
  using unsigned_less [of a] by simp

lemma sextet_bound_1: "(x::nat) < 256 \<Longrightarrow> x div 4 < 64"
  by simp
lemma sextet_bound_2: "(x::nat) mod 4 * 16 < 64"
proof -
  have "x mod 4 < 4" by simp
  then show ?thesis by linarith
qed
lemma sextet_bound_3: "(y::nat) < 256 \<Longrightarrow> x mod 4 * 16 + y div 16 < 64"
proof -
  assume "y < 256"
  then have "y div 16 < 16" by simp
  moreover have "x mod 4 < 4" by simp
  ultimately show ?thesis by linarith
qed
lemma sextet_bound_4: "(y::nat) mod 16 * 4 < 64"
proof -
  have "y mod 16 < 16" by simp
  then show ?thesis by linarith
qed
lemma sextet_bound_5: "(z::nat) < 256 \<Longrightarrow> y mod 16 * 4 + z div 64 < 64"
proof -
  assume "z < 256"
  then have "z div 64 < 4" by simp
  moreover have "y mod 16 < 16" by simp
  ultimately show ?thesis by linarith
qed
lemma sextet_bound_6: "(z::nat) mod 64 < 64"
  by simp

lemma rejoin_1: "(y::nat) < 256 \<Longrightarrow> x + y div 16 div 16 = x"
  by (simp add: div_mult2_eq [symmetric])
lemma rejoin_2: "(y::nat) < 256 \<Longrightarrow> y div 16 mod 16 * 16 + y mod 16 = y"
proof -
  assume "y < 256"
  then have "y div 16 < 16" by simp
  then have "y div 16 mod 16 = y div 16" by simp
  then show ?thesis by simp
qed
lemma rejoin_3: "(z::nat) < 256 \<Longrightarrow> (y::nat) < 256 \<Longrightarrow> y div 16 mod 16 * 16 + (y mod 16 + z div 64 div 4) = y"
proof -
  assume "z < 256" "y < 256"
  then have "z div 64 div 4 = 0" by (simp add: div_mult2_eq [symmetric])
  then show ?thesis using rejoin_2 [OF \<open>y < 256\<close>] by simp
qed
lemma rejoin_4: "(z::nat) < 256 \<Longrightarrow> z div 64 mod 4 * 64 + z mod 64 = z"
proof -
  assume "z < 256"
  then have "z div 64 < 4" by simp
  then have "z div 64 mod 4 = z div 64" by simp
  then show ?thesis by simp
qed

lemma byte_of_unat: "(of_nat (unat a) :: 8 word) = a"
  by simp

lemmas sextet_ok =
  sextet_bound_1 [OF unat_byte] sextet_bound_2 sextet_bound_3 [OF unat_byte] sextet_bound_4
  sextet_bound_5 [OF unat_byte] sextet_bound_6

lemmas rejoin =
  rejoin_1 [OF unat_byte] rejoin_2 [OF unat_byte] rejoin_3 [OF unat_byte unat_byte]
  rejoin_4 [OF unat_byte]

lemma base64_roundtrip: "base64_decode (base64_encode bs) = Some bs"
proof (induction bs rule: base64_encode.induct)
  case 1
  show ?case by simp
next
  case (2 a)
  show ?case
    by (simp add: Let_def unsextet_sextet sextet_ok del: of_nat_add of_nat_mult)
next
  case (3 a b)
  have "base64_decode (base64_encode [a, b])
        = Some [of_nat (unat a + unat b div 16 div 16),
                of_nat (unat b div 16 mod 16 * 16 + unat b mod 16)]"
    by (simp add: Let_def unsextet_sextet sextet_not_pad sextet_ok
        del: of_nat_add of_nat_mult)
  then show ?case
    by (simp only: rejoin byte_of_unat)
next
  case (4 a b c bs)
  then have "base64_decode (base64_encode (a # b # c # bs))
        = Some (of_nat (unat a + unat b div 16 div 16)
                # of_nat (unat b div 16 mod 16 * 16 + (unat b mod 16 + unat c div 64 div 4))
                # of_nat (unat c div 64 mod 4 * 64 + unat c mod 64) # bs)"
    by (simp add: Let_def unsextet_sextet sextet_not_pad sextet_ok
        del: of_nat_add of_nat_mult)
  then show ?case
    by (simp only: rejoin byte_of_unat)
qed

lemma base64_encode_chars:
  "set (base64_encode bs) \<subseteq> insert (CHR ''='') (set b64_alphabet)"
proof (induction bs rule: base64_encode.induct)
  case 1
  show ?case by simp
next
  case (2 a)
  show ?case by (simp add: Let_def sextet_in_alphabet sextet_ok)
next
  case (3 a b)
  show ?case by (simp add: Let_def sextet_in_alphabet sextet_ok)
next
  case (4 a b c bs)
  then show ?case by (simp add: Let_def sextet_in_alphabet sextet_ok)
qed

lemma base64_encode_no_comma: "CHR '','' \<notin> set (base64_encode bs)"
proof -
  have "CHR '','' \<notin> insert (CHR ''='') (set b64_alphabet)"
    by (simp add: b64_alphabet_def)
  then show ?thesis
    using base64_encode_chars [of bs] by blast
qed

lemma split_from_no_sep: "sep \<notin> set s \<Longrightarrow> split_from sep piece s = [piece @ s]"
  by (induction s arbitrary: piece) auto

lemma split_from_first_sep:
  "sep \<notin> set a \<Longrightarrow> split_from sep piece (a @ sep # b) = (piece @ a) # split_from sep [] b"
  by (induction a arbitrary: piece) auto

lemma fileToGenerativePart_payload:
  assumes bytes: "file_bytes f = Some bs"
    and no_comma: "CHR '','' \<notin> set (file_type f)"
  shows "fileToGenerativePart f = Inr \<lparr>mimeType = file_type f, data = Some (base64_encode bs)\<rparr>"
proof -
  let ?t = "if file_type f = [] then ''application/octet-stream'' else file_type f"
  have t: "CHR '','' \<notin> set ?t" using no_comma by simp
  have url: "readAsDataURL f = Some ((''data:'' @ ?t @ '';base64'') @ CHR '','' # base64_encode bs)"
    using bytes by (simp add: readAsDataURL_def)
  have hd: "CHR '','' \<notin> set (''data:'' @ ?t @ '';base64'')"
    using t by simp
  have "split ((''data:'' @ ?t @ '';base64'') @ CHR '','' # base64_encode bs) (CHR '','')
        = (''data:'' @ ?t @ '';base64'') # [base64_encode bs]"
    unfolding split_def
    by (simp only: split_from_first_sep [OF hd] split_from_no_sep [OF base64_encode_no_comma]
        append_Nil)
  then show ?thesis
    by (simp add: fileToGenerativePart_def url at_index_def del: append_assoc)
qed

text \<open>
  C3: the encoder is to strip the data-URL prefix and return the base64 payload alone,
  so that the payload decodes to the file's bytes. The code takes the second piece of
  the data URL split at every comma. For the accepted file \<open>comma_type_file\<close>, whose
  type \<open>video/webm;codecs=vp8,opus\<close> holds a comma, the data URL is
  \<open>data:video/webm;codecs=vp8,opus;base64,AAEC\<close> and the code returns
  \<open>opus;base64\<close>, a piece of the prefix, in place of the payload \<open>AAEC\<close>; it is
  not base64 and decodes to nothing.
\<close>

theorem C3_comma_in_type_evaluation:
  "fst (validateFile comma_type_file \<lparr>error = None, dragActive = False\<rparr>) = True
   \<and> readAsDataURL comma_type_file = Some ''data:video/webm;codecs=vp8,opus;base64,AAEC''
   \<and> fileToGenerativePart comma_type_file
       = Inr \<lparr>mimeType = ''video/webm;codecs=vp8,opus'', data = Some ''opus;base64''\<rparr>
   \<and> base64_encode [0, 1, 2] = ''AAEC''
   \<and> base64_decode ''AAEC'' = Some [0, 1, 2]
   \<and> base64_decode ''opus;base64'' = None"
proof -
  have a: "fst (validateFile comma_type_file \<lparr>error = None, dragActive = False\<rparr>) = True"
    by (simp add: validateFile_unfold comma_type_file_def startsWith_def)
  have b: "readAsDataURL comma_type_file = Some ''data:video/webm;codecs=vp8,opus;base64,AAEC''"
    by code_simp
  have c: "fileToGenerativePart comma_type_file
       = Inr \<lparr>mimeType = ''video/webm;codecs=vp8,opus'', data = Some ''opus;base64''\<rparr>"
    by code_simp
  have d: "base64_encode [0, 1, 2] = ''AAEC''"
    by code_simp
  have e: "base64_decode ''AAEC'' = Some [0, 1, 2]"
    by code_simp
  have f: "base64_decode ''opus;base64'' = None"
    by code_simp
  from a b c d e f show ?thesis by (intro conjI)
qed

text \<open>
  The same law on the files the code handles as intended: when the file is readable
  and its type holds no comma, the encoder returns the payload alone, and decoding it
  gives back the file's bytes.
\<close>

theorem encoder_round_trip_without_comma:
  assumes "file_bytes f = Some bs" and "CHR '','' \<notin> set (file_type f)"
  shows "fileToGenerativePart f
           = Inr \<lparr>mimeType = file_type f, data = Some (base64_encode bs)\<rparr>
         \<and> base64_decode (base64_encode bs) = Some bs"
  using assms by (simp add: fileToGenerativePart_payload base64_roundtrip)

theorem encoder_round_trip_without_comma_witness:
  "file_bytes example_file = Some [0, 1, 2]
   \<and> CHR '','' \<notin> set (file_type example_file)
   \<and> fileToGenerativePart example_file
       = Inr \<lparr>mimeType = ''video/mp4'', data = Some ''AAEC''\<rparr>
   \<and> base64_decode ''AAEC'' = Some [0, 1, 2]"
proof -
  have b: "file_bytes example_file = Some [0, 1, 2]"
    by (simp add: example_file_def)
  have t: "CHR '','' \<notin> set (file_type example_file)"
    by (simp add: example_file_def)
  have e: "base64_encode [0, 1, 2] = ''AAEC''"
    by code_simp
  have ft: "file_type example_file = ''video/mp4''"
    by (simp add: example_file_def)
  have p: "fileToGenerativePart example_file
       = Inr \<lparr>mimeType = ''video/mp4'', data = Some ''AAEC''\<rparr>"
    using encoder_round_trip_without_comma [OF b t, THEN conjunct1]
    by (simp only: e ft)
  have d: "base64_decode ''AAEC'' = Some [0, 1, 2]"
    using encoder_round_trip_without_comma [OF b t, THEN conjunct2]
    by (simp only: e)
  from b t p d show ?thesis by (intro conjI)
qed

section \<open>Properties of the remote analysis client\<close>

lemma JSON_parse_example: "JSON_parse example_response_text = Inr example_report"
  by code_simp

lemma JSON_parse_empty: "JSON_parse [] = Inl (SyntaxError ''Unexpected token'')"
  by (simp add: JSON_parse_def tokenize.simps)

lemma example_part:
  "fileToGenerativePart example_file = Inr \<lparr>mimeType = ''video/mp4'', data = Some ''AAEC''\<rparr>"
  by code_simp

lemma analyzeInterview_sent:
  assumes "API_KEY e = Some key" and "key \<noteq> []"
    and "fileToGenerativePart f = Inr base64Data"
  shows "analyzeInterview e generateContent f jd w =
     (case read_response
             (generateContent \<lparr>apiKey = key\<rparr>
                (analysis_request base64Data (prompt_for jd))) of
        Inr analysis \<Rightarrow>
          (Inr analysis,
           w\<lparr>network := network w @ [analysis_request base64Data (prompt_for jd)]\<rparr>)
      | Inl err \<Rightarrow>
          (Inl (Error ''Failed to analyze the video. The file might be too large or the format unsupported.''),
           w\<lparr>network := network w @ [analysis_request base64Data (prompt_for jd)],
             console := console w @ [[Str ''Gemini Analysis Error:'', Thrown err]]\<rparr>))"
  using assms by (simp add: analyzeInterview_def Let_def split: sum.splits)

lemma JSON_parse_out_of_range:
  "JSON_parse out_of_range_response_text = Inr out_of_range_report"
  by code_simp

lemma JSON_parse_no_categories:
  "JSON_parse no_categories_response_text = Inr no_categories_report"
  by code_simp

lemma JSON_parse_malformed: "JSON_parse ''{not json'' = Inl (SyntaxError ''Unexpected token'')"
  by code_simp

lemma example_key: "API_KEY example_env = Some ''secret''" "''secret'' \<noteq> []"
  by (simp_all add: example_env_def)

lemma read_response_text:
  "response_text resp = Some t \<Longrightarrow> t \<noteq> [] \<Longrightarrow> read_response (Inr resp) = JSON_parse t"
  by (simp add: read_response_def)

lemma read_response_no_text:
  "\<not> truthy (response_text resp) \<Longrightarrow>
   read_response (Inr resp) = Inl (Error ''No response text received from Gemini.'')"
  by (simp add: read_response_def truthy_def split: option.splits)

lemma read_response_rejected: "read_response (Inl cause) = Inl cause"
  by (simp add: read_response_def)

lemma read_response_Inr:
  "read_response outcome = Inr v \<Longrightarrow>
   \<exists>resp t. outcome = Inr resp \<and> response_text resp = Some t \<and> JSON_parse t = Inr v"
  by (auto simp: read_response_def split: sum.splits option.splits if_splits)

lemma analyzeInterview_parsed:
  assumes "API_KEY e = Some key" and "key \<noteq> []"
    and "fileToGenerativePart f = Inr base64Data"
    and "generateContent \<lparr>apiKey = key\<rparr> (analysis_request base64Data (prompt_for jd)) = Inr resp"
    and "response_text resp = Some t"
    and "JSON_parse t = Inr v"
  shows "analyzeInterview e generateContent f jd w =
           (Inr v, w\<lparr>network := network w @ [analysis_request base64Data (prompt_for jd)]\<rparr>)"
proof -
  have "t \<noteq> []"
    using assms(6) JSON_parse_empty by auto
  then have "read_response
      (generateContent \<lparr>apiKey = key\<rparr> (analysis_request base64Data (prompt_for jd))) = Inr v"
    using assms(4-6) by (simp add: read_response_text)
  then show ?thesis
    by (simp add: analyzeInterview_sent [OF assms(1-3)])
qed

text \<open>
  C4: with no credential configured (the key is undefined or empty),
  \<open>analyzeInterview\<close> rejects with the configuration error, whatever the file, the
  context string and the remote endpoint, and leaves the world as it was: no request
  is sent, so that the count of outbound calls from the empty world is zero. The
  message of the configuration error is not the message of the generic error.
\<close>

theorem C4_no_key_no_call:
  assumes "\<not> truthy (API_KEY e)"
  shows "analyzeInterview e generateContent f jd w
           = (Inl (Error ''API Key is missing. Please set it in the environment.''), w)
         \<and> length (network (snd (analyzeInterview e generateContent f jd empty_world))) = 0
         \<and> ''API Key is missing. Please set it in the environment.''
             \<noteq> ''Failed to analyze the video. The file might be too large or the format unsupported.''"
  using assms
  by (simp add: analyzeInterview_def truthy_def empty_world_def split: option.splits)

theorem C4_no_key_no_call_witness:
  "\<not> truthy (API_KEY \<lparr>API_KEY = None\<rparr>)
   \<and> analyzeInterview \<lparr>API_KEY = None\<rparr> (\<lambda>ai req. Inr \<lparr>response_text = Some example_response_text\<rparr>)
         example_file ''Senior React Developer'' empty_world
       = (Inl (Error ''API Key is missing. Please set it in the environment.''), empty_world)
   \<and> length (network (snd (analyzeInterview \<lparr>API_KEY = None\<rparr>
          (\<lambda>ai req. Inr \<lparr>response_text = Some example_response_text\<rparr>)
          example_file ''Senior React Developer'' empty_world))) = 0"
proof -
  have h: "\<not> truthy (API_KEY \<lparr>API_KEY = None\<rparr>)"
    by (simp add: truthy_def)
  show ?thesis
    using h C4_no_key_no_call [OF h, of "\<lambda>ai req. Inr \<lparr>response_text = Some example_response_text\<rparr>"
        example_file "''Senior React Developer''" empty_world]
    by (simp add: empty_world_def)
qed

text \<open>
  C5, as stated, covers every failure of \<open>analyzeInterview\<close> other than a missing
  credential. A failed file read is such a failure, and it is not collapsed: the
  promise of \<open>fileToGenerativePart\<close> is awaited before the \<open>try\<close> block, so with
  a credential and an unreadable file \<open>analyzeInterview\<close> rejects with the reader's
  event, which is not the generic error, and writes nothing to the console.
\<close>

theorem C5_read_failure_counterexample:
  "truthy (API_KEY example_env)
   \<and> analyzeInterview example_env
         (\<lambda>ai req. Inr \<lparr>response_text = Some example_response_text\<rparr>)
         (example_file\<lparr>file_bytes := None\<rparr>) ''Senior React Developer'' empty_world
       = (Inl ProgressEvent, \<lparr>network = [], console = []\<rparr>)
   \<and> ProgressEvent
       \<noteq> Error ''Failed to analyze the video. The file might be too large or the format unsupported.''"
  by (simp add: analyzeInterview_def fileToGenerativePart_def readAsDataURL_def
      example_env_def example_file_def empty_world_def truthy_def)

text \<open>
  C5 (amended): with a credential and a file that has been read, each failure of the
  remote call collapses into the one generic error, and the cause is written to the
  console: when the call rejects (a network failure), when the response has no text or
  an empty one, and when the text is not JSON. Whenever \<open>analyzeInterview\<close> returns
  a value, the value is the parse of the whole response text: there is no partial
  report.
\<close>

theorem C5_failures_collapse:
  assumes "API_KEY e = Some key" and "key \<noteq> []"
    and "fileToGenerativePart f = Inr base64Data"
  shows
    "(\<forall>cause.
        generateContent \<lparr>apiKey = key\<rparr> (analysis_request base64Data (prompt_for jd)) = Inl cause
        \<longrightarrow> analyzeInterview e generateContent f jd w =
              (Inl (Error ''Failed to analyze the video. The file might be too large or the format unsupported.''),
               w\<lparr>network := network w @ [analysis_request base64Data (prompt_for jd)],
                 console := console w @ [[Str ''Gemini Analysis Error:'', Thrown cause]]\<rparr>))
     \<and> (\<forall>resp.
        generateContent \<lparr>apiKey = key\<rparr> (analysis_request base64Data (prompt_for jd)) = Inr resp
        \<and> \<not> truthy (response_text resp)
        \<longrightarrow> analyzeInterview e generateContent f jd w =
              (Inl (Error ''Failed to analyze the video. The file might be too large or the format unsupported.''),
               w\<lparr>network := network w @ [analysis_request base64Data (prompt_for jd)],
                 console := console w
                   @ [[Str ''Gemini Analysis Error:'',
                       Thrown (Error ''No response text received from Gemini.'')]]\<rparr>))
     \<and> (\<forall>resp t cause.
        generateContent \<lparr>apiKey = key\<rparr> (analysis_request base64Data (prompt_for jd)) = Inr resp
        \<and> response_text resp = Some t \<and> t \<noteq> [] \<and> JSON_parse t = Inl cause
        \<longrightarrow> analyzeInterview e generateContent f jd w =
              (Inl (Error ''Failed to analyze the video. The file might be too large or the format unsupported.''),
               w\<lparr>network := network w @ [analysis_request base64Data (prompt_for jd)],
                 console := console w @ [[Str ''Gemini Analysis Error:'', Thrown cause]]\<rparr>))
     \<and> (\<forall>v.
        fst (analyzeInterview e generateContent f jd w) = Inr v
        \<longrightarrow> (\<exists>resp t.
              generateContent \<lparr>apiKey = key\<rparr> (analysis_request base64Data (prompt_for jd))
                = Inr resp
              \<and> response_text resp = Some t \<and> JSON_parse t = Inr v))"
proof (intro conjI allI impI)
  fix cause
  assume "generateContent \<lparr>apiKey = key\<rparr> (analysis_request base64Data (prompt_for jd)) = Inl cause"
  then show "analyzeInterview e generateContent f jd w =
      (Inl (Error ''Failed to analyze the video. The file might be too large or the format unsupported.''),
       w\<lparr>network := network w @ [analysis_request base64Data (prompt_for jd)],
         console := console w @ [[Str ''Gemini Analysis Error:'', Thrown cause]]\<rparr>)"
    by (simp add: analyzeInterview_sent [OF assms] read_response_rejected)
next
  fix resp
  assume "generateContent \<lparr>apiKey = key\<rparr> (analysis_request base64Data (prompt_for jd)) = Inr resp
          \<and> \<not> truthy (response_text resp)"
  then show "analyzeInterview e generateContent f jd w =
      (Inl (Error ''Failed to analyze the video. The file might be too large or the format unsupported.''),
       w\<lparr>network := network w @ [analysis_request base64Data (prompt_for jd)],
         console := console w
           @ [[Str ''Gemini Analysis Error:'',
               Thrown (Error ''No response text received from Gemini.'')]]\<rparr>)"
    by (simp add: analyzeInterview_sent [OF assms] read_response_no_text)
next
  fix resp t cause
  assume "generateContent \<lparr>apiKey = key\<rparr> (analysis_request base64Data (prompt_for jd)) = Inr resp
          \<and> response_text resp = Some t \<and> t \<noteq> [] \<and> JSON_parse t = Inl cause"
  then show "analyzeInterview e generateContent f jd w =
      (Inl (Error ''Failed to analyze the video. The file might be too large or the format unsupported.''),
       w\<lparr>network := network w @ [analysis_request base64Data (prompt_for jd)],
         console := console w @ [[Str ''Gemini Analysis Error:'', Thrown cause]]\<rparr>)"
    by (simp add: analyzeInterview_sent [OF assms] read_response_text)
next
  fix v
  assume "fst (analyzeInterview e generateContent f jd w) = Inr v"
  then have "read_response
      (generateContent \<lparr>apiKey = key\<rparr> (analysis_request base64Data (prompt_for jd))) = Inr v"
    by (simp add: analyzeInterview_sent [OF assms] split: sum.splits)
  then show "\<exists>resp t.
      generateContent \<lparr>apiKey = key\<rparr> (analysis_request base64Data (prompt_for jd)) = Inr resp
      \<and> response_text resp = Some t \<and> JSON_parse t = Inr v"
    by (rule read_response_Inr)
qed

theorem C5_failures_collapse_witness:
  "analyzeInterview example_env (\<lambda>ai req. Inl (TypeError ''Failed to fetch'')) example_file
       ''Senior React Developer'' empty_world
     = (Inl (Error ''Failed to analyze the video. The file might be too large or the format unsupported.''),
        \<lparr>network = [analysis_request \<lparr>mimeType = ''video/mp4'', data = Some ''AAEC''\<rparr>
                       (prompt_for ''Senior React Developer'')],
         console = [[Str ''Gemini Analysis Error:'', Thrown (TypeError ''Failed to fetch'')]]\<rparr>)
   \<and> analyzeInterview example_env (\<lambda>ai req. Inr \<lparr>response_text = None\<rparr>) example_file
       ''Senior React Developer'' empty_world
     = (Inl (Error ''Failed to analyze the video. The file might be too large or the format unsupported.''),
        \<lparr>network = [analysis_request \<lparr>mimeType = ''video/mp4'', data = Some ''AAEC''\<rparr>
                       (prompt_for ''Senior React Developer'')],
         console = [[Str ''Gemini Analysis Error:'',
                     Thrown (Error ''No response text received from Gemini.'')]]\<rparr>)
   \<and> analyzeInterview example_env (\<lambda>ai req. Inr \<lparr>response_text = Some ''{not json''\<rparr>) example_file
       ''Senior React Developer'' empty_world
     = (Inl (Error ''Failed to analyze the video. The file might be too large or the format unsupported.''),
        \<lparr>network = [analysis_request \<lparr>mimeType = ''video/mp4'', data = Some ''AAEC''\<rparr>
                       (prompt_for ''Senior React Developer'')],
         console = [[Str ''Gemini Analysis Error:'',
                     Thrown (SyntaxError ''Unexpected token'')]]\<rparr>)"
proof -
  note c5 = C5_failures_collapse [OF example_key example_part]
  have a: "analyzeInterview example_env (\<lambda>ai req. Inl (TypeError ''Failed to fetch'')) example_file
       ''Senior React Developer'' empty_world
     = (Inl (Error ''Failed to analyze the video. The file might be too large or the format unsupported.''),
        \<lparr>network = [analysis_request \<lparr>mimeType = ''video/mp4'', data = Some ''AAEC''\<rparr>
                       (prompt_for ''Senior React Developer'')],
         console = [[Str ''Gemini Analysis Error:'', Thrown (TypeError ''Failed to fetch'')]]\<rparr>)"
    using c5 [of "\<lambda>ai req. Inl (TypeError ''Failed to fetch'')" "''Senior React Developer''"
        empty_world]
    by (simp add: empty_world_def)
  have b: "analyzeInterview example_env (\<lambda>ai req. Inr \<lparr>response_text = None\<rparr>) example_file
       ''Senior React Developer'' empty_world
     = (Inl (Error ''Failed to analyze the video. The file might be too large or the format unsupported.''),
        \<lparr>network = [analysis_request \<lparr>mimeType = ''video/mp4'', data = Some ''AAEC''\<rparr>
                       (prompt_for ''Senior React Developer'')],
         console = [[Str ''Gemini Analysis Error:'',
                     Thrown (Error ''No response text received from Gemini.'')]]\<rparr>)"
    using c5 [of "\<lambda>ai req. Inr \<lparr>response_text = None\<rparr>" "''Senior React Developer''"
        empty_world]
    by (simp add: empty_world_def truthy_def)
  have c: "analyzeInterview example_env (\<lambda>ai req. Inr \<lparr>response_text = Some ''{not json''\<rparr>) example_file
       ''Senior React Developer'' empty_world
     = (Inl (Error ''Failed to analyze the video. The file might be too large or the format unsupported.''),
        \<lparr>network = [analysis_request \<lparr>mimeType = ''video/mp4'', data = Some ''AAEC''\<rparr>
                       (prompt_for ''Senior React Developer'')],
         console = [[Str ''Gemini Analysis Error:'',
                     Thrown (SyntaxError ''Unexpected token'')]]\<rparr>)"
    using c5 [of "\<lambda>ai req. Inr \<lparr>response_text = Some ''{not json''\<rparr>" "''Senior React Developer''"
        empty_world]
    by (simp add: empty_world_def JSON_parse_malformed)
  from a b c show ?thesis by (intro conjI)
qed

text \<open>
  C6: with a credential and a readable file, when the remote call answers with a text
  that \<open>JSON.parse\<close> accepts, \<open>analyzeInterview\<close> returns the parsed value itself
  (so every field of the result is the field of the parsed value), sends the one
  request and writes nothing to the console. The witness is the response of the
  specification's example: the report has \<open>overallScore\<close> 82 and exactly one
  category, named \<open>Verbal Communication\<close>.
\<close>

theorem C6_wellformed_response_returned:
  assumes "API_KEY e = Some key" and "key \<noteq> []"
    and "fileToGenerativePart f = Inr base64Data"
    and "generateContent \<lparr>apiKey = key\<rparr> (analysis_request base64Data (prompt_for jd)) = Inr resp"
    and "response_text resp = Some t"
    and "JSON_parse t = Inr v"
  shows "analyzeInterview e generateContent f jd w =
           (Inr v, w\<lparr>network := network w @ [analysis_request base64Data (prompt_for jd)]\<rparr>)"
  using assms by (rule analyzeInterview_parsed)

theorem C6_wellformed_response_returned_witness:
  "JSON_parse example_response_text = Inr example_report
   \<and> analyzeInterview example_env (\<lambda>ai req. Inr \<lparr>response_text = Some example_response_text\<rparr>)
         example_file ''Senior React Developer'' empty_world
       = (Inr example_report,
          \<lparr>network = [analysis_request \<lparr>mimeType = ''video/mp4'', data = Some ''AAEC''\<rparr>
                         (prompt_for ''Senior React Developer'')],
           console = []\<rparr>)
   \<and> field example_report ''overallScore'' = Some (JNumber 82)
   \<and> field example_report ''categories''
       = Some (JArray [JObject [(''name'', JString ''Verbal Communication''),
                                (''score'', JNumber 80), (''feedback'', JString ''Good pace''),
                                (''status'', JString ''good'')]])"
proof -
  have "analyzeInterview example_env (\<lambda>ai req. Inr \<lparr>response_text = Some example_response_text\<rparr>)
         example_file ''Senior React Developer'' empty_world
       = (Inr example_report,
          \<lparr>network = [analysis_request \<lparr>mimeType = ''video/mp4'', data = Some ''AAEC''\<rparr>
                         (prompt_for ''Senior React Developer'')],
           console = []\<rparr>)"
    using C6_wellformed_response_returned [OF example_key example_part _ _ JSON_parse_example,
        of "\<lambda>ai req. Inr \<lparr>response_text = Some example_response_text\<rparr>"
           "''Senior React Developer''" "\<lparr>response_text = Some example_response_text\<rparr>"
           empty_world]
    by (simp add: empty_world_def)
  then show ?thesis
    by (simp add: JSON_parse_example) (simp add: example_report_def)
qed

text \<open>
  C7: the request sent carries, as its text part, the instruction in which the role
  description is the fixed default \<open>General Software Engineering Role\<close> when the
  context string is empty, and the context string itself, unchanged, when it is not.
\<close>

theorem C7_default_description:
  assumes "API_KEY e = Some key" and "key \<noteq> []"
    and "fileToGenerativePart f = Inr base64Data"
  shows \<open>network (snd (analyzeInterview e generateContent f jd w))
           = network w @ [analysis_request base64Data (prompt_for jd)]
         \<and> parts (analysis_request base64Data (prompt_for jd))
           = [InlineData base64Data, Text (prompt_for jd)]
         \<and> prompt_for jd
           = ''\<newline>    You are an expert Interview Coach and Technical Recruiter.\<newline>    Review the uploaded video which contains an interview practice session.\<newline>    The video may include audio, webcam footage, and screen sharing.\<newline>    \<newline>    The user is applying for a role described as:\<newline>    "''
             @ (if jd = [] then ''General Software Engineering Role'' else jd)
             @ ''"\<newline>\<newline>    Please analyze the video for:\<newline>    1. Verbal Communication: Clarity, pace, tone, filler words.\<newline>    2. Non-Verbal Communication: Eye contact, body language, confidence (if camera is on).\<newline>    3. Content Quality: Relevance to the job description, technical depth, structure of answers.\<newline>    4. Screen Share / Visuals: If they are sharing their screen, assess the clarity of their walkthrough and code/presentation.\<newline>\<newline>    Provide a structured JSON response evaluating these areas.\<newline>  ''\<close>
proof (intro conjI)
  show "network (snd (analyzeInterview e generateContent f jd w))
          = network w @ [analysis_request base64Data (prompt_for jd)]"
    by (simp add: analyzeInterview_sent [OF assms] split: sum.splits)
  show "parts (analysis_request base64Data (prompt_for jd))
          = [InlineData base64Data, Text (prompt_for jd)]"
    by (simp add: analysis_request_def)
  show \<open>prompt_for jd
           = ''\<newline>    You are an expert Interview Coach and Technical Recruiter.\<newline>    Review the uploaded video which contains an interview practice session.\<newline>    The video may include audio, webcam footage, and screen sharing.\<newline>    \<newline>    The user is applying for a role described as:\<newline>    "''
             @ (if jd = [] then ''General Software Engineering Role'' else jd)
             @ ''"\<newline>\<newline>    Please analyze the video for:\<newline>    1. Verbal Communication: Clarity, pace, tone, filler words.\<newline>    2. Non-Verbal Communication: Eye contact, body language, confidence (if camera is on).\<newline>    3. Content Quality: Relevance to the job description, technical depth, structure of answers.\<newline>    4. Screen Share / Visuals: If they are sharing their screen, assess the clarity of their walkthrough and code/presentation.\<newline>\<newline>    Provide a structured JSON response evaluating these areas.\<newline>  ''\<close>
    by (simp add: prompt_for_def or_else_def)
qed

theorem C7_default_description_witness:
  \<open>network (snd (analyzeInterview example_env
         (\<lambda>ai req. Inr \<lparr>response_text = Some example_response_text\<rparr>) example_file []
         empty_world))
     = [analysis_request \<lparr>mimeType = ''video/mp4'', data = Some ''AAEC''\<rparr> (prompt_for [])]
   \<and> prompt_for []
     = ''\<newline>    You are an expert Interview Coach and Technical Recruiter.\<newline>    Review the uploaded video which contains an interview practice session.\<newline>    The video may include audio, webcam footage, and screen sharing.\<newline>    \<newline>    The user is applying for a role described as:\<newline>    "''
       @ ''General Software Engineering Role''
       @ ''"\<newline>\<newline>    Please analyze the video for:\<newline>    1. Verbal Communication: Clarity, pace, tone, filler words.\<newline>    2. Non-Verbal Communication: Eye contact, body language, confidence (if camera is on).\<newline>    3. Content Quality: Relevance to the job description, technical depth, structure of answers.\<newline>    4. Screen Share / Visuals: If they are sharing their screen, assess the clarity of their walkthrough and code/presentation.\<newline>\<newline>    Provide a structured JSON response evaluating these areas.\<newline>  ''
   \<and> network (snd (analyzeInterview example_env
         (\<lambda>ai req. Inr \<lparr>response_text = Some example_response_text\<rparr>) example_file
         ''Senior React Developer'' empty_world))
     = [analysis_request \<lparr>mimeType = ''video/mp4'', data = Some ''AAEC''\<rparr>
          (prompt_for ''Senior React Developer'')]
   \<and> prompt_for ''Senior React Developer''
     = ''\<newline>    You are an expert Interview Coach and Technical Recruiter.\<newline>    Review the uploaded video which contains an interview practice session.\<newline>    The video may include audio, webcam footage, and screen sharing.\<newline>    \<newline>    The user is applying for a role described as:\<newline>    "''
       @ ''Senior React Developer''
       @ ''"\<newline>\<newline>    Please analyze the video for:\<newline>    1. Verbal Communication: Clarity, pace, tone, filler words.\<newline>    2. Non-Verbal Communication: Eye contact, body language, confidence (if camera is on).\<newline>    3. Content Quality: Relevance to the job description, technical depth, structure of answers.\<newline>    4. Screen Share / Visuals: If they are sharing their screen, assess the clarity of their walkthrough and code/presentation.\<newline>\<newline>    Provide a structured JSON response evaluating these areas.\<newline>  ''\<close>
proof -
  note c7 = C7_default_description [OF example_key example_part]
  show ?thesis
    using c7 [of "\<lambda>ai req. Inr \<lparr>response_text = Some example_response_text\<rparr>" "[]" empty_world]
      c7 [of "\<lambda>ai req. Inr \<lparr>response_text = Some example_response_text\<rparr>"
          "''Senior React Developer''" empty_world]
    by (simp add: empty_world_def)
qed

text \<open>
  C8: the client does not check the report invariants. A response that is valid JSON
  with an overall score of 150, a category score of \<open>-5\<close> and the unlisted status
  \<open>superb\<close> is returned as the analysis, with nothing thrown and nothing logged;
  so is a response whose list of categories is empty.
\<close>

theorem C8_invariants_not_revalidated:
  "analyzeInterview example_env
       (\<lambda>ai req. Inr \<lparr>response_text = Some out_of_range_response_text\<rparr>)
       example_file [] empty_world
     = (Inr out_of_range_report,
        \<lparr>network = [analysis_request \<lparr>mimeType = ''video/mp4'', data = Some ''AAEC''\<rparr>
                       (prompt_for [])],
         console = []\<rparr>)
   \<and> field out_of_range_report ''overallScore'' = Some (JNumber 150)
   \<and> \<not> spec_score_in_range (field out_of_range_report ''overallScore'')
   \<and> \<not> list_all spec_category_ok
         [JObject [(''name'', JString ''Verbal Communication''), (''score'', JNumber (- 5)),
                   (''feedback'', JString ''Good pace''), (''status'', JString ''superb'')]]
   \<and> \<not> spec_report_invariants out_of_range_report
   \<and> analyzeInterview example_env
       (\<lambda>ai req. Inr \<lparr>response_text = Some no_categories_response_text\<rparr>)
       example_file [] empty_world
     = (Inr no_categories_report,
        \<lparr>network = [analysis_request \<lparr>mimeType = ''video/mp4'', data = Some ''AAEC''\<rparr>
                       (prompt_for [])],
         console = []\<rparr>)
   \<and> field no_categories_report ''categories'' = Some (JArray [])
   \<and> spec_score_in_range (field no_categories_report ''overallScore'')
   \<and> \<not> spec_report_invariants no_categories_report"
proof -
  have a: "analyzeInterview example_env
       (\<lambda>ai req. Inr \<lparr>response_text = Some out_of_range_response_text\<rparr>)
       example_file [] empty_world
     = (Inr out_of_range_report,
        \<lparr>network = [analysis_request \<lparr>mimeType = ''video/mp4'', data = Some ''AAEC''\<rparr>
                       (prompt_for [])],
         console = []\<rparr>)"
    using analyzeInterview_parsed [OF example_key example_part _ _ JSON_parse_out_of_range,
        of "\<lambda>ai req. Inr \<lparr>response_text = Some out_of_range_response_text\<rparr>" "[]"
           "\<lparr>response_text = Some out_of_range_response_text\<rparr>" empty_world]
    by (simp add: empty_world_def)
  have b: "analyzeInterview example_env
       (\<lambda>ai req. Inr \<lparr>response_text = Some no_categories_response_text\<rparr>)
       example_file [] empty_world
     = (Inr no_categories_report,
        \<lparr>network = [analysis_request \<lparr>mimeType = ''video/mp4'', data = Some ''AAEC''\<rparr>
                       (prompt_for [])],
         console = []\<rparr>)"
    using analyzeInterview_parsed [OF example_key example_part _ _ JSON_parse_no_categories,
        of "\<lambda>ai req. Inr \<lparr>response_text = Some no_categories_response_text\<rparr>" "[]"
           "\<lparr>response_text = Some no_categories_response_text\<rparr>" empty_world]
    by (simp add: empty_world_def)
  have c: "field out_of_range_report ''overallScore'' = Some (JNumber 150)"
    by (simp add: out_of_range_report_def)
  have d: "\<not> spec_score_in_range (field out_of_range_report ''overallScore'')"
    by (simp add: c spec_score_in_range_def)
  have e: "\<not> list_all spec_category_ok
         [JObject [(''name'', JString ''Verbal Communication''), (''score'', JNumber (- 5)),
                   (''feedback'', JString ''Good pace''), (''status'', JString ''superb'')]]"
    by (simp add: spec_category_ok_def spec_score_in_range_def)
  have f: "\<not> spec_report_invariants out_of_range_report"
    by (simp add: spec_report_invariants_def d)
  have g: "field no_categories_report ''categories'' = Some (JArray [])"
    by (simp add: no_categories_report_def)
  have h: "spec_score_in_range (field no_categories_report ''overallScore'')"
    by (simp add: no_categories_report_def spec_score_in_range_def)
  have i: "\<not> spec_report_invariants no_categories_report"
    by (simp add: spec_report_invariants_def g)
  from a b c d e f g h i show ?thesis by (intro conjI)
qed

text \<open>
  A failed file read is not among the failures of the remote call: the promise of
  \<open>fileToGenerativePart\<close> is awaited outside the \<open>try\<close> block, so
  \<open>analyzeInterview\<close> rejects with the reader's event itself, sends no request and
  logs nothing.
\<close>

theorem read_failure_propagates:
  assumes "API_KEY e = Some key" and "key \<noteq> []" and "file_bytes f = None"
  shows "analyzeInterview e generateContent f jd w = (Inl ProgressEvent, w)"
  using assms
  by (simp add: analyzeInterview_def fileToGenerativePart_def readAsDataURL_def)

theorem read_failure_propagates_witness:
  "analyzeInterview example_env (\<lambda>ai req. Inr \<lparr>response_text = Some example_response_text\<rparr>)
       (example_file\<lparr>file_bytes := None\<rparr>) ''Senior React Developer'' empty_world
     = (Inl ProgressEvent, empty_world)"
  using read_failure_propagates [OF example_key,
      of "example_file\<lparr>file_bytes := None\<rparr>"
         "\<lambda>ai req. Inr \<lparr>response_text = Some example_response_text\<rparr>"
         "''Senior React Developer''" empty_world]
  by simp

section \<open>Properties of the App component\<close>

text \<open>
  C10: in every reachable state of the component, an upload in progress
  (\<open>status = UPLOADING\<close>) has no error message, and the error status
  (\<open>status = ERROR\<close>) has one: the loading and the error indications are never
  active together.
\<close>

theorem C10_loading_and_error_exclusive:
  assumes "reachable s"
  shows "(status s = UPLOADING \<longrightarrow> errorMessage s = None)
         \<and> (status s = ERROR \<longrightarrow> errorMessage s \<noteq> None)"
  using assms
proof (induction rule: reachable.induct)
  case start
  show ?case by (simp add: initial_app_def)
next
  case (select s f)
  then show ?case by (simp add: setVideoFile_def)
next
  case (edit s d)
  then show ?case by (simp add: setJobDescription_def)
next
  case (submit s)
  then show ?case by (simp add: handleAnalyze_submit_def split: option.splits)
next
  case (settled s outcome)
  then show ?case by (simp add: handleAnalyze_settled_def split: sum.splits)
next
  case (reset s)
  then show ?case by (simp add: handleReset_def)
qed

theorem C10_loading_and_error_exclusive_witness:
  "reachable (handleAnalyze_submit (setVideoFile (Some example_file) initial_app))
   \<and> status (handleAnalyze_submit (setVideoFile (Some example_file) initial_app)) = UPLOADING
   \<and> errorMessage (handleAnalyze_submit (setVideoFile (Some example_file) initial_app)) = None
   \<and> reachable (handleAnalyze_settled
        (Inl (Error ''Failed to analyze the video. The file might be too large or the format unsupported.''))
        (handleAnalyze_submit (setVideoFile (Some example_file) initial_app)))
   \<and> status (handleAnalyze_settled
        (Inl (Error ''Failed to analyze the video. The file might be too large or the format unsupported.''))
        (handleAnalyze_submit (setVideoFile (Some example_file) initial_app))) = ERROR
   \<and> errorMessage (handleAnalyze_settled
        (Inl (Error ''Failed to analyze the video. The file might be too large or the format unsupported.''))
        (handleAnalyze_submit (setVideoFile (Some example_file) initial_app))) \<noteq> None"
proof -
  let ?s1 = "handleAnalyze_submit (setVideoFile (Some example_file) initial_app)"
  let ?s2 = "handleAnalyze_settled
        (Inl (Error ''Failed to analyze the video. The file might be too large or the format unsupported.''))
        ?s1"
  have r1: "reachable ?s1"
    by (intro reachable.submit reachable.select reachable.start)
  have r2: "reachable ?s2"
    by (intro reachable.settled r1)
  have u: "status ?s1 = UPLOADING"
    by (simp add: handleAnalyze_submit_def setVideoFile_def)
  have e: "status ?s2 = ERROR"
    by (simp add: handleAnalyze_settled_def)
  show ?thesis
    using r1 r2 u e C10_loading_and_error_exclusive [OF r1] C10_loading_and_error_exclusive [OF r2]
    by simp
qed

end
